theory Spec2Isabelle
  imports Main "HOL-Library.Word"
begin

section \<open>The WebSocket relay of backend/handlers/websocket.go\<close>

text \<open>
  The relay keeps three pieces of process-wide state: the registry \<open>clients\<close>
  (a Go map used as a set of client pointers), the byte slice \<open>sharedState\<close>, and the
  snapshot file \<open>ydoc_state.bin\<close>. Every function of the source becomes a function on
  a record of that state. A client pointer is a natural number; the registry maps the
  pointers that are registered to the struct they point to. Each function is modelled
  as one atomic step: the goroutines of the source interleave such steps.
  The lines written by \<open>log.Printf\<close> and \<open>log.Println\<close> are collected in \<open>logs\<close>.
\<close>

subsection \<open>Constants\<close>

type_synonym byte = "8 word"
type_synonym bytes = "byte list"
type_synonym cid = nat

definition persistenceFile :: string where
  "persistenceFile = ''ydoc_state.bin''"

definition autoSaveInterval :: nat where
  "autoSaveInterval = 30"

text \<open>The capacity of \<open>make(chan []byte, 256)\<close> in \<open>HandleWebSocket\<close>.\<close>

definition sendCapacity :: nat where
  "sendCapacity = 256"

text \<open>The constant of \<open>logYDocContent\<close>.\<close>

definition maxUpdateSize :: nat where
  "maxUpdateSize = 10 * 1024 * 1024"

subsection \<open>State\<close>

text \<open>
  The struct \<open>client\<close>: the connection (of which only whether it has been closed
  matters here) and the buffered channel \<open>send\<close>, the list of frames waiting in it,
  oldest first.
\<close>

record client =
  conn_closed :: bool
  send :: "bytes list"

datatype log_line =
    ClientConnected string
  | ClientDisconnected
  | ReadEOF
  | ReadError
  | HandlingError
  | ReceivedType byte nat
  | SizeExceedsLimit nat nat
  | ReceivedUpdate nat
  | UpdatePreview nat bytes
  | Estimated nat nat
  | SaveError
  | StateSaved nat
  | NoSavedState
  | LoadError
  | SavedStateEmpty
  | StateLoaded nat

text \<open>
  \<open>disk\<close> is the content of the snapshot file, \<open>None\<close> when the file does not exist.
  \<open>pendingSaves\<close> counts the goroutines started by \<open>go saveState()\<close> that have not
  run yet.
\<close>

record server =
  clients :: "cid \<rightharpoonup> client"
  sharedState :: bytes
  disk :: "bytes option"
  pendingSaves :: nat
  logs :: "log_line list"

datatype go_error = ErrNotExist | ErrIO | ErrUpgrade

definition logf :: "log_line \<Rightarrow> server \<Rightarrow> server" where
  "logf l s = s\<lparr>logs := logs s @ [l]\<rparr>"

subsection \<open>The file system calls\<close>

text \<open>
  Whether a call of the operating system fails is decided outside the program, so it
  is a parameter. \<open>os.ReadFile\<close> fails with a not-exist error when there is no file,
  and may fail otherwise. A failed \<open>os.WriteFile\<close> leaves behind whatever the
  operating system left: that content comes with the failure.
\<close>

datatype write_outcome = WriteOk | WriteFails "bytes option"

definition os_ReadFile :: "bool \<Rightarrow> bytes option \<Rightarrow> go_error + bytes" where
  "os_ReadFile fault f =
     (case f of
        None \<Rightarrow> Inl ErrNotExist
      | Some d \<Rightarrow> if fault then Inl ErrIO else Inr d)"

definition os_WriteFile :: "write_outcome \<Rightarrow> bytes \<Rightarrow> bytes option \<Rightarrow> go_error option \<times> bytes option" where
  "os_WriteFile w d f =
     (case w of
        WriteOk \<Rightarrow> (None, Some d)
      | WriteFails left \<Rightarrow> (Some ErrIO, left))"

definition os_IsNotExist :: "go_error \<Rightarrow> bool" where
  "os_IsNotExist e = (e = ErrNotExist)"

subsection \<open>Persistence\<close>

definition saveState :: "write_outcome \<Rightarrow> server \<Rightarrow> server" where
  "saveState w s =
     (let d = sharedState s in
      if length d = 0 then s
      else
        (case os_WriteFile w d (disk s) of
           (Some err, f) \<Rightarrow> logf SaveError (s\<lparr>disk := f\<rparr>)
         | (None, f) \<Rightarrow> logf (StateSaved (length d)) (s\<lparr>disk := f\<rparr>)))"

definition loadState :: "bool \<Rightarrow> server \<Rightarrow> server" where
  "loadState fault s =
     (case os_ReadFile fault (disk s) of
        Inl err \<Rightarrow>
          if os_IsNotExist err then logf NoSavedState s
          else logf LoadError s
      | Inr d \<Rightarrow>
          if length d = 0 then logf SavedStateEmpty s
          else logf (StateLoaded (length d)) (s\<lparr>sharedState := d\<rparr>))"

text \<open>The package variables as the process starts, over a given snapshot file.\<close>

definition initial :: "bytes option \<Rightarrow> server" where
  "initial f =
     \<lparr>clients = Map.empty, sharedState = [], disk = f, pendingSaves = 0, logs = []\<rparr>"

text \<open>\<open>init\<close>: load the snapshot (the autosave goroutine it starts is \<open>autoSave\<close>).\<close>

definition init_server :: "bool \<Rightarrow> bytes option \<Rightarrow> server" where
  "init_server fault f = loadState fault (initial f)"

text \<open>One tick of the ticker loop of \<open>autoSave\<close>.\<close>

definition autoSave :: "write_outcome \<Rightarrow> server \<Rightarrow> server" where
  "autoSave w s = (if length (sharedState s) > 0 then saveState w s else s)"

text \<open>A goroutine started by \<open>go saveState()\<close> gets to run.\<close>

definition runPendingSave :: "write_outcome \<Rightarrow> server \<Rightarrow> server" where
  "runPendingSave w s =
     (if pendingSaves s = 0 then s
      else saveState w (s\<lparr>pendingSaves := pendingSaves s - 1\<rparr>))"

subsection \<open>Handling a frame\<close>

definition min_go :: "nat \<Rightarrow> nat \<Rightarrow> nat" where
  "min_go a b = (if a < b then a else b)"

definition logYDocContent :: "cid \<Rightarrow> bytes \<Rightarrow> server \<Rightarrow> server" where
  "logYDocContent c update s =
     (if length update > maxUpdateSize
      then logf (SizeExceedsLimit (length update) maxUpdateSize) s
      else
        (let s1 = logf (ReceivedUpdate (length update)) s in
         if length update > 0 then
           (let previewLen = min_go 100 (length update);
                s2 = logf (UpdatePreview previewLen (take previewLen update)) s1;
                estimatedNodes = length update div 300;
                estimatedEdges = length update div 100
            in logf (Estimated estimatedNodes estimatedEdges) s2)
         else s1))"

definition handleUpdate :: "cid \<Rightarrow> bytes \<Rightarrow> server \<Rightarrow> server" where
  "handleUpdate c msg s =
     (if length msg < 2 \<or> msg ! 0 \<noteq> 2 then s
      else
        (let update = drop 1 msg in
         if length update = 0 then s
         else
           (let s1 = s\<lparr>sharedState := update\<rparr>;
                s2 = logYDocContent c update s1
            in s2\<lparr>pendingSaves := pendingSaves s2 + 1\<rparr>)))"

text \<open>
  The \<open>select\<close> with a \<open>default\<close> branch: the frame enters the channel when the
  channel has room, and nothing happens otherwise.
\<close>

definition trySend :: "bytes \<Rightarrow> client \<Rightarrow> client" where
  "trySend msg cl =
     (if length (send cl) < sendCapacity then cl\<lparr>send := send cl @ [msg]\<rparr> else cl)"

text \<open>
  The loop over the registry visits every entry once and touches only that entry, so
  the order of the visits does not matter and the loop is the entry-wise update.
\<close>

definition broadcastMessage :: "cid \<Rightarrow> bytes \<Rightarrow> server \<Rightarrow> go_error option \<times> server" where
  "broadcastMessage c msg s =
     (None,
      s\<lparr>clients := (\<lambda>k. if k \<noteq> c then map_option (trySend msg) (clients s k)
                          else clients s k)\<rparr>)"

definition handleMessage :: "cid \<Rightarrow> bytes \<Rightarrow> server \<Rightarrow> go_error option \<times> server" where
  "handleMessage c msg s =
     (if length msg = 0 then (None, s)
      else
        (let s1 = (if length msg > 0 then logf (ReceivedType (msg ! 0) (length msg)) s
                   else s);
             s2 = (if length msg > 0 \<and> msg ! 0 = 2 then handleUpdate c msg s1 else s1)
         in broadcastMessage c msg s2))"

subsection \<open>The connection\<close>

text \<open>
  What \<open>conn.ReadMessage\<close> returns, one value for each call: a frame, the end of the
  stream, or another error.
\<close>

datatype read_result = Frame bytes | ReadEnds | ReadFails

fun is_Frame :: "read_result \<Rightarrow> bool" where
  "is_Frame (Frame m) = True"
| "is_Frame ReadEnds = False"
| "is_Frame ReadFails = False"

text \<open>
  The loop of \<open>readPump\<close> over the reads that have happened so far. It has returned
  (\<open>Returned\<close>, with the deferred \<open>conn.Close\<close> done) or it is waiting in the next
  \<open>ReadMessage\<close> (\<open>Reading\<close>).
\<close>

datatype pump = Reading | Returned

definition closeConn :: "cid \<Rightarrow> server \<Rightarrow> server" where
  "closeConn c s =
     s\<lparr>clients := (clients s)(c := map_option (\<lambda>cl. cl\<lparr>conn_closed := True\<rparr>) (clients s c))\<rparr>"

fun readPump :: "cid \<Rightarrow> read_result list \<Rightarrow> server \<Rightarrow> pump \<times> server" where
  "readPump c [] s = (Reading, s)"
| "readPump c (ReadEnds # rs) s = (Returned, closeConn c (logf ReadEOF s))"
| "readPump c (ReadFails # rs) s = (Returned, closeConn c (logf ReadError s))"
| "readPump c (Frame message # rs) s =
     (case handleMessage c message s of
        (Some err, s') \<Rightarrow> (Returned, closeConn c (logf HandlingError s'))
      | (None, s') \<Rightarrow> readPump c rs s')"

text \<open>
  \<open>HandleWebSocket\<close> up to the start of the loops: the room name of the route is
  read and logged, and a new client with an empty channel enters the registry. The
  pointer \<open>c\<close> is the address of the new struct.
\<close>

definition HandleWebSocket_connect :: "bool \<Rightarrow> string \<Rightarrow> cid \<Rightarrow> server \<Rightarrow> go_error option \<times> server" where
  "HandleWebSocket_connect upgraded roomName c s =
     (if \<not> upgraded then (Some ErrUpgrade, s)
      else
        (let s1 = logf (ClientConnected roomName) s
         in (None, s1\<lparr>clients := (clients s1)(c \<mapsto> \<lparr>conn_closed = False, send = []\<rparr>)\<rparr>)))"

text \<open>
  \<open>HandleWebSocket\<close> after \<open>readPump\<close> has returned: the client leaves the registry.
  Its channel is closed only then, so no broadcast meets a closed channel, and the
  struct leaves the model with its registry entry.
\<close>

definition HandleWebSocket_cleanup :: "cid \<Rightarrow> server \<Rightarrow> go_error option \<times> server" where
  "HandleWebSocket_cleanup c s =
     (None, logf ClientDisconnected (s\<lparr>clients := (clients s)(c := None)\<rparr>))"

subsection \<open>States used below\<close>

text \<open>A client connects to each of the rooms given, on an empty server.\<close>

definition joined :: "string \<Rightarrow> string \<Rightarrow> server" where
  "joined ra rb =
     snd (HandleWebSocket_connect True rb 2
       (snd (HandleWebSocket_connect True ra 1 (initial None))))"

text \<open>
  Client 1 sends the frame \<open>[0]\<close> a number of times while nothing is taken out of
  the channels.
\<close>

fun flood :: "nat \<Rightarrow> server \<Rightarrow> server" where
  "flood 0 s = s"
| "flood (Suc n) s = flood n (snd (handleMessage 1 [0] s))"

text \<open>After 256 such frames the channel of client 2 is full.\<close>

definition saturated :: server where
  "saturated = flood 256 (joined ''r1'' ''r1'')"

text \<open>A third client connects then.\<close>

definition crowded :: server where
  "crowded = snd (HandleWebSocket_connect True ''r1'' 3 saturated)"

section \<open>Properties\<close>

subsection \<open>What each step changes\<close>

lemma fst_broadcastMessage: "fst (broadcastMessage c msg s) = None"
  by (simp add: broadcastMessage_def)

lemma fst_handleMessage: "fst (handleMessage c msg s) = None"
  by (simp add: handleMessage_def Let_def fst_broadcastMessage)

lemma broadcast_fields:
  "sharedState (snd (broadcastMessage c msg s)) = sharedState s"
  "pendingSaves (snd (broadcastMessage c msg s)) = pendingSaves s"
  "disk (snd (broadcastMessage c msg s)) = disk s"
  "logs (snd (broadcastMessage c msg s)) = logs s"
  "clients (snd (broadcastMessage c msg s)) k =
     (if k \<noteq> c then map_option (trySend msg) (clients s k) else clients s k)"
  by (simp_all add: broadcastMessage_def)

lemma logf_fields:
  "sharedState (logf l s) = sharedState s"
  "pendingSaves (logf l s) = pendingSaves s"
  "disk (logf l s) = disk s"
  "clients (logf l s) = clients s"
  "logs (logf l s) = logs s @ [l]"
  by (simp_all add: logf_def)

lemma logYDocContent_fields:
  "sharedState (logYDocContent c u s) = sharedState s"
  "pendingSaves (logYDocContent c u s) = pendingSaves s"
  "disk (logYDocContent c u s) = disk s"
  "clients (logYDocContent c u s) = clients s"
  by (simp_all add: logYDocContent_def Let_def logf_fields)

lemma handleUpdate_payload:
  "payload \<noteq> [] \<Longrightarrow>
   handleUpdate c (2 # payload) s =
     (logYDocContent c payload (s\<lparr>sharedState := payload\<rparr>))
       \<lparr>pendingSaves := Suc (pendingSaves s)\<rparr>"
  by (simp add: handleUpdate_def Let_def logYDocContent_fields)

lemma handleUpdate_fields:
  "payload \<noteq> [] \<Longrightarrow> sharedState (handleUpdate c (2 # payload) s) = payload"
  "payload \<noteq> [] \<Longrightarrow> pendingSaves (handleUpdate c (2 # payload) s) = Suc (pendingSaves s)"
  "clients (handleUpdate c msg s) = clients s"
  "disk (handleUpdate c msg s) = disk s"
  by (simp_all add: handleUpdate_def Let_def logYDocContent_fields)

lemma handleMessage_update:
  "payload \<noteq> [] \<Longrightarrow>
   handleMessage c (2 # payload) s =
     broadcastMessage c (2 # payload)
       (handleUpdate c (2 # payload) (logf (ReceivedType 2 (Suc (length payload))) s))"
  by (simp add: handleMessage_def Let_def)

lemma handleMessage_clients:
  "msg \<noteq> [] \<Longrightarrow>
   clients (snd (handleMessage c msg s)) k =
     (if k \<noteq> c then map_option (trySend msg) (clients s k) else clients s k)"
  by (simp add: handleMessage_def Let_def broadcast_fields handleUpdate_fields logf_fields)

lemma joined_clients:
  "clients (joined ra rb) 1 = Some \<lparr>conn_closed = False, send = []\<rparr>"
  "clients (joined ra rb) 2 = Some \<lparr>conn_closed = False, send = []\<rparr>"
  "sharedState (joined ra rb) = []"
  "pendingSaves (joined ra rb) = 0"
  by (simp_all add: joined_def HandleWebSocket_connect_def Let_def logf_def initial_def)


subsection \<open>Update frames and the size limit\<close>

lemma update_frame_shape:
  "msg ! 0 = (2::byte) \<Longrightarrow> drop 1 msg \<noteq> [] \<Longrightarrow> msg = 2 # drop 1 msg"
  by (cases msg) simp_all

lemma handleMessage_sender:
  "clients (snd (handleMessage c msg s)) c = clients s c"
  by (cases "msg = []") (simp_all add: handleMessage_clients, simp add: handleMessage_def)

lemma handleMessage_applies:
  assumes "msg ! 0 = 2" and "drop 1 msg \<noteq> []"
  shows "sharedState (snd (handleMessage c msg s)) = drop 1 msg"
proof -
  have m: "msg = 2 # drop 1 msg" using assms by (rule update_frame_shape)
  have "sharedState (snd (handleMessage c (2 # drop 1 msg) s)) = drop 1 msg"
    using assms(2) by (simp add: handleMessage_update broadcast_fields handleUpdate_fields)
  with m show ?thesis by simp
qed

lemma handleMessage_oversize_logged:
  assumes "msg ! 0 = 2" and "length (drop 1 msg) > maxUpdateSize"
  shows "SizeExceedsLimit (length (drop 1 msg)) maxUpdateSize
           \<in> set (logs (snd (handleMessage c msg s)))"
proof -
  from assms(2) have ne: "drop 1 msg \<noteq> []" by auto
  have m: "msg = 2 # drop 1 msg" using assms(1) ne by (rule update_frame_shape)
  have "SizeExceedsLimit (length (drop 1 msg)) maxUpdateSize
           \<in> set (logs (snd (handleMessage c (2 # drop 1 msg) s)))"
    using assms(2) ne
    by (simp add: handleMessage_update broadcast_fields handleUpdate_payload
        logYDocContent_def logf_def)
  with m show ?thesis by simp
qed

text \<open>
  Claim C1, as the code has it. An update frame (first byte 2) whose payload after the
  tag is not empty and is at most 10 MiB long is applied: the payload becomes
  \<open>sharedState\<close>. An update frame whose payload is longer than 10 MiB makes
  \<open>logYDocContent\<close> log the size warning; \<open>handleMessage\<close> returns no error, the
  sender's registry entry is untouched, and the frame is offered to the channel of
  every other registered client, as any other non-empty frame is.
\<close>

theorem C1_update_size_policy:
  "(msg ! 0 = 2 \<and> drop 1 msg \<noteq> [] \<and> length (drop 1 msg) \<le> maxUpdateSize \<longrightarrow>
      sharedState (snd (handleMessage c msg s)) = drop 1 msg) \<and>
   (msg ! 0 = 2 \<and> length (drop 1 msg) > maxUpdateSize \<longrightarrow>
      fst (handleMessage c msg s) = None \<and>
      SizeExceedsLimit (length (drop 1 msg)) maxUpdateSize
        \<in> set (logs (snd (handleMessage c msg s))) \<and>
      clients (snd (handleMessage c msg s)) c = clients s c \<and>
      (\<forall>k. k \<noteq> c \<longrightarrow>
         clients (snd (handleMessage c msg s)) k = map_option (trySend msg) (clients s k)))"
proof (intro conjI impI allI)
  assume "msg ! 0 = 2 \<and> drop 1 msg \<noteq> [] \<and> length (drop 1 msg) \<le> maxUpdateSize"
  then show "sharedState (snd (handleMessage c msg s)) = drop 1 msg"
    using handleMessage_applies by blast
next
  show "fst (handleMessage c msg s) = None" by (rule fst_handleMessage)
next
  assume "msg ! 0 = 2 \<and> maxUpdateSize < length (drop 1 msg)"
  then show "SizeExceedsLimit (length (drop 1 msg)) maxUpdateSize
        \<in> set (logs (snd (handleMessage c msg s)))"
    using handleMessage_oversize_logged by blast
next
  show "clients (snd (handleMessage c msg s)) c = clients s c"
    by (rule handleMessage_sender)
next
  fix k
  assume "msg ! 0 = 2 \<and> maxUpdateSize < length (drop 1 msg)" and "k \<noteq> c"
  then have "msg \<noteq> []" by auto
  with \<open>k \<noteq> c\<close> show
    "clients (snd (handleMessage c msg s)) k = map_option (trySend msg) (clients s k)"
    by (simp add: handleMessage_clients)
qed

text \<open>
  The statement at a small update \<open>[2, 1, 2, 3]\<close> and at an update of 10 MiB and
  one byte, both sent by client 1 while client 2 is registered.
\<close>

theorem C1_update_size_policy_witness:
  "sharedState (snd (handleMessage 1 [2, 1, 2, 3] (joined ''r1'' ''r1''))) = [1, 2, 3] \<and>
   SizeExceedsLimit 10485761 10485760
     \<in> set (logs (snd (handleMessage 1 (2 # replicate 10485761 0) (joined ''r1'' ''r1'')))) \<and>
   clients (snd (handleMessage 1 (2 # replicate 10485761 0) (joined ''r1'' ''r1''))) 2
     = Some \<lparr>conn_closed = False, send = [2 # replicate 10485761 0]\<rparr>"
  using C1_update_size_policy [of "[2, 1, 2, 3]" 1 "joined ''r1'' ''r1''"]
    C1_update_size_policy [of "2 # replicate 10485761 0" 1 "joined ''r1'' ''r1''"]
  by (simp add: maxUpdateSize_def joined_clients trySend_def sendCapacity_def)

text \<open>
  Claim C1 as the specification words it does not hold. Client 1 sends the tag 2
  followed by 10 MiB and one byte: the payload becomes \<open>sharedState\<close>, one save is
  started, and client 2 finds the frame in its channel. The size test sits in
  \<open>logYDocContent\<close>, which runs after the assignment and only chooses what is logged.
\<close>

theorem C1_oversized_update_counterexample:
  "(2 # replicate 10485761 0) ! 0 = (2::byte) \<and>
   length (drop 1 (2 # replicate 10485761 (0::byte))) > 10 * 1024 * 1024 \<and>
   sharedState (joined ''r1'' ''r1'') = [] \<and>
   sharedState (snd (handleMessage 1 (2 # replicate 10485761 0) (joined ''r1'' ''r1'')))
     = replicate 10485761 0 \<and>
   pendingSaves (joined ''r1'' ''r1'') = 0 \<and>
   pendingSaves (snd (handleMessage 1 (2 # replicate 10485761 0) (joined ''r1'' ''r1''))) = 1 \<and>
   map_option send (clients (joined ''r1'' ''r1'') 2) = Some [] \<and>
   map_option send
     (clients (snd (handleMessage 1 (2 # replicate 10485761 0) (joined ''r1'' ''r1''))) 2)
     = Some [2 # replicate 10485761 0]"
  by (simp add: handleMessage_update handleUpdate_fields broadcast_fields joined_clients
      logf_fields trySend_def sendCapacity_def)

subsection \<open>Frames that are not updates\<close>

lemma handleMessage_no_update:
  assumes "msg = [] \<or> msg ! 0 \<noteq> 2"
  shows "sharedState (snd (handleMessage c msg s)) = sharedState s"
    and "pendingSaves (snd (handleMessage c msg s)) = pendingSaves s"
    and "disk (snd (handleMessage c msg s)) = disk s"
  using assms
  by (auto simp add: handleMessage_def Let_def broadcast_fields logf_fields)

text \<open>
  Claim C2, as the code has it. A frame that is empty, or whose first byte is none of
  0, 1 and 2, produces no error (the read loop goes on to the next read), leaves
  \<open>sharedState\<close>, the started saves, the snapshot file and the sender's registry entry
  as they were. The empty frame changes nothing at all. A non-empty one is offered to
  the channel of every other registered client: \<open>handleMessage\<close> broadcasts every
  non-empty frame, whatever its first byte.
\<close>

theorem C2_unknown_frames:
  assumes "msg = [] \<or> (msg ! 0 \<noteq> 0 \<and> msg ! 0 \<noteq> 1 \<and> msg ! 0 \<noteq> 2)"
  shows "fst (handleMessage c msg s) = None \<and>
         fst (readPump c [Frame msg] s) = Reading \<and>
         sharedState (snd (handleMessage c msg s)) = sharedState s \<and>
         pendingSaves (snd (handleMessage c msg s)) = pendingSaves s \<and>
         disk (snd (handleMessage c msg s)) = disk s \<and>
         clients (snd (handleMessage c msg s)) c = clients s c \<and>
         (msg = [] \<longrightarrow> snd (handleMessage c msg s) = s) \<and>
         (msg \<noteq> [] \<longrightarrow>
            (\<forall>k. k \<noteq> c \<longrightarrow>
               clients (snd (handleMessage c msg s)) k
                 = map_option (trySend msg) (clients s k)))"
proof -
  from assms have nu: "msg = [] \<or> msg ! 0 \<noteq> 2" by blast
  have "fst (readPump c [Frame msg] s) = Reading"
    using fst_handleMessage [of c msg s]
    by (cases "handleMessage c msg s") simp
  moreover have "msg = [] \<longrightarrow> snd (handleMessage c msg s) = s"
    by (simp add: handleMessage_def)
  ultimately show ?thesis
    using nu
    by (simp add: fst_handleMessage handleMessage_no_update handleMessage_sender
        handleMessage_clients)
qed

text \<open>
  The statement at the empty frame and at the frame \<open>[3]\<close>.
\<close>

theorem C2_unknown_frames_witness:
  "snd (handleMessage 1 [] (joined ''r1'' ''r1'')) = joined ''r1'' ''r1'' \<and>
   fst (handleMessage 1 [3] (joined ''r1'' ''r1'')) = None \<and>
   sharedState (snd (handleMessage 1 [3] (joined ''r1'' ''r1''))) = [] \<and>
   pendingSaves (snd (handleMessage 1 [3] (joined ''r1'' ''r1''))) = 0 \<and>
   clients (snd (handleMessage 1 [3] (joined ''r1'' ''r1''))) 2
     = Some \<lparr>conn_closed = False, send = [[3]]\<rparr>"
  using C2_unknown_frames [of "[]" 1 "joined ''r1'' ''r1''"]
    C2_unknown_frames [of "[3]" 1 "joined ''r1'' ''r1''"]
  by (simp add: joined_clients trySend_def sendCapacity_def)

text \<open>
  Claim C2 as the specification words it does not hold: the frame \<open>[3]\<close> sent by
  client 1 reaches the channel of client 2.
\<close>

theorem C2_unknown_tag_relayed_counterexample:
  "[3::byte] ! 0 \<noteq> 0 \<and> [3::byte] ! 0 \<noteq> 1 \<and> [3::byte] ! 0 \<noteq> 2 \<and>
   map_option send (clients (joined ''r1'' ''r1'') 2) = Some [] \<and>
   map_option send (clients (snd (handleMessage 1 [3] (joined ''r1'' ''r1''))) 2)
     = Some [[3]]"
  by (simp add: handleMessage_clients joined_clients trySend_def sendCapacity_def)

subsection \<open>Rooms and the registry\<close>

lemma joined_sender:
  "clients (joined ra rb) (Suc 0) = Some \<lparr>conn_closed = False, send = []\<rparr>"
  by (simp add: joined_def HandleWebSocket_connect_def Let_def logf_def initial_def)

lemma connect_clients:
  "clients (snd (HandleWebSocket_connect True r c s)) k =
     (if k = c then Some \<lparr>conn_closed = False, send = []\<rparr> else clients s k)"
  by (simp add: HandleWebSocket_connect_def Let_def logf_def)

text \<open>
  Claim C3, as the code has it. The registry is one map for the whole process, and
  the room name of a connection is only logged: connecting under one room name or
  under another gives the same registry. A client \<open>b\<close> that connects under any room
  \<open>rb\<close> after a client \<open>a\<close> connected under any room \<open>ra\<close> finds a frame broadcast
  by \<open>a\<close> in its channel. The entries a broadcast changes are registered clients
  other than the sender, and the sender's own entry is never changed.
\<close>

theorem C3_broadcast_ignores_rooms:
  "clients (snd (HandleWebSocket_connect True ra a s))
     = clients (snd (HandleWebSocket_connect True rb a s)) \<and>
   (a \<noteq> b \<longrightarrow>
      clients (snd (broadcastMessage a msg
        (snd (HandleWebSocket_connect True rb b
          (snd (HandleWebSocket_connect True ra a s)))))) b
        = Some \<lparr>conn_closed = False, send = [msg]\<rparr>) \<and>
   (\<forall>k. clients (snd (broadcastMessage c msg s)) k \<noteq> clients s k \<longrightarrow>
        k \<noteq> c \<and> k \<in> dom (clients s)) \<and>
   clients (snd (broadcastMessage c msg s)) c = clients s c"
proof (intro conjI impI allI)
  show "clients (snd (HandleWebSocket_connect True ra a s))
     = clients (snd (HandleWebSocket_connect True rb a s))"
    by (simp add: fun_eq_iff connect_clients)
next
  assume "a \<noteq> b"
  then show "clients (snd (broadcastMessage a msg
        (snd (HandleWebSocket_connect True rb b
          (snd (HandleWebSocket_connect True ra a s)))))) b
        = Some \<lparr>conn_closed = False, send = [msg]\<rparr>"
    by (simp add: broadcast_fields connect_clients trySend_def sendCapacity_def)
next
  fix k
  assume ch: "clients (snd (broadcastMessage c msg s)) k \<noteq> clients s k"
  then show "k \<noteq> c" by (auto simp add: broadcast_fields)
  from ch show "k \<in> dom (clients s)"
    by (cases "clients s k") (auto simp add: broadcast_fields split: if_splits)
next
  show "clients (snd (broadcastMessage c msg s)) c = clients s c"
    by (simp add: broadcast_fields)
qed

text \<open>
  The statement with client 1 connected under \<open>r1\<close> and client 2 under \<open>r2\<close>.
\<close>

theorem C3_broadcast_ignores_rooms_witness:
  "clients (snd (broadcastMessage 1 [2, 7]
        (snd (HandleWebSocket_connect True ''r2'' 2
          (snd (HandleWebSocket_connect True ''r1'' 1 (initial None))))))) 2
     = Some \<lparr>conn_closed = False, send = [[2, 7]]\<rparr> \<and>
   clients (snd (broadcastMessage 1 [2, 7] (joined ''r1'' ''r2''))) 2
     \<noteq> clients (joined ''r1'' ''r2'') 2 \<and>
   (2::nat) \<noteq> 1 \<and> 2 \<in> dom (clients (joined ''r1'' ''r2''))"
  using C3_broadcast_ignores_rooms [of "''r1''" 1 "initial None" "''r2''" 2 "[2, 7]" 1]
    C3_broadcast_ignores_rooms [of "''r1''" 1 "joined ''r1'' ''r2''" "''r2''" 2 "[2, 7]" 1]
  by (simp add: broadcast_fields joined_clients trySend_def sendCapacity_def)

text \<open>
  Claim C3 as the specification words it does not hold: client 1 connected to room
  \<open>r1\<close>, client 2 to room \<open>r2\<close>, and a frame broadcast by client 1 is in the
  channel of client 2.
\<close>

theorem C3_room_isolation_counterexample:
  "''r1'' \<noteq> ''r2'' \<and>
   logs (joined ''r1'' ''r2'') = [ClientConnected ''r1'', ClientConnected ''r2''] \<and>
   map_option send (clients (joined ''r1'' ''r2'') 2) = Some [] \<and>
   map_option send (clients (snd (broadcastMessage 1 [2, 1, 2, 3] (joined ''r1'' ''r2''))) 2)
     = Some [[2, 1, 2, 3]]"
  by (simp add: broadcast_fields joined_clients trySend_def sendCapacity_def)
    (simp add: joined_def HandleWebSocket_connect_def Let_def logf_def initial_def)

subsection \<open>Updates and full channels\<close>

lemma trySend_room:
  "length (send cl) < sendCapacity \<Longrightarrow> trySend msg cl = cl\<lparr>send := send cl @ [msg]\<rparr>"
  by (simp add: trySend_def)

text \<open>
  Claim C4, as the code has it. When client \<open>a\<close> sends a frame whose first byte is
  2 and whose payload after the tag is not empty, the payload becomes \<open>sharedState\<close>;
  every other registered client \<open>k\<close> whose channel has room gets the frame as it was
  sent, tag included, at the end of its channel; and the entry of \<open>a\<close> is left as it
  was, so \<open>a\<close> does not get the frame back.
\<close>

theorem C4_update_applied_and_relayed:
  assumes "msg ! 0 = 2" and "drop 1 msg \<noteq> []"
  shows "sharedState (snd (handleMessage a msg s)) = drop 1 msg \<and>
         (k \<noteq> a \<and> clients s k = Some cl \<and> length (send cl) < sendCapacity \<longrightarrow>
            clients (snd (handleMessage a msg s)) k = Some (cl\<lparr>send := send cl @ [msg]\<rparr>)) \<and>
         clients (snd (handleMessage a msg s)) a = clients s a"
proof -
  from assms(2) have ne: "msg \<noteq> []" by auto
  have "sharedState (snd (handleMessage a msg s)) = drop 1 msg"
    using assms by (rule handleMessage_applies)
  moreover have "k \<noteq> a \<and> clients s k = Some cl \<and> length (send cl) < sendCapacity \<longrightarrow>
      clients (snd (handleMessage a msg s)) k = Some (cl\<lparr>send := send cl @ [msg]\<rparr>)"
    using ne by (simp add: handleMessage_clients trySend_room)
  moreover have "clients (snd (handleMessage a msg s)) a = clients s a"
    by (rule handleMessage_sender)
  ultimately show ?thesis by blast
qed

lemma flood_sender: "clients (flood n s) (Suc 0) = clients s (Suc 0)"
  by (induction n arbitrary: s) (simp_all add: handleMessage_clients)

lemma flood_sharedState: "sharedState (flood n s) = sharedState s"
  by (induction n arbitrary: s) (simp_all add: handleMessage_no_update)

lemma flood_receiver:
  "k \<noteq> Suc 0 \<Longrightarrow> clients s k = Some cl \<Longrightarrow> length (send cl) + n \<le> sendCapacity \<Longrightarrow>
   clients (flood n s) k = Some (cl\<lparr>send := send cl @ replicate n [0]\<rparr>)"
proof (induction n arbitrary: s cl)
  case 0
  then show ?case by simp
next
  case (Suc n)
  let ?s = "snd (handleMessage 1 [0] s)"
  have "clients ?s k = Some (cl\<lparr>send := send cl @ [[0]]\<rparr>)"
    using Suc.prems by (simp add: handleMessage_clients trySend_def)
  moreover have "length (send (cl\<lparr>send := send cl @ [[0]]\<rparr>)) + n \<le> sendCapacity"
    using Suc.prems by simp
  ultimately have "clients (flood n ?s) k
      = Some ((cl\<lparr>send := send cl @ [[0]]\<rparr>)\<lparr>send := send (cl\<lparr>send := send cl @ [[0]]\<rparr>) @ replicate n [0]\<rparr>)"
    using Suc.IH [of ?s "cl\<lparr>send := send cl @ [[0]]\<rparr>"] Suc.prems(1) by blast
  then show ?case by (simp add: replicate_app_Cons_same)
qed

lemma saturated_clients:
  "clients saturated (Suc 0) = Some \<lparr>conn_closed = False, send = []\<rparr>"
  "clients saturated 2 = Some \<lparr>conn_closed = False, send = replicate 256 [0]\<rparr>"
  "sharedState saturated = []"
proof -
  show "clients saturated (Suc 0) = Some \<lparr>conn_closed = False, send = []\<rparr>"
    by (simp add: saturated_def flood_sender joined_sender)
  have "clients (flood 256 (joined ''r1'' ''r1'')) 2
      = Some (\<lparr>conn_closed = False, send = []\<rparr>\<lparr>send := send \<lparr>conn_closed = False, send = []\<rparr> @ replicate 256 [0]\<rparr>)"
    by (rule flood_receiver) (simp_all add: joined_clients sendCapacity_def)
  then show "clients saturated 2 = Some \<lparr>conn_closed = False, send = replicate 256 [0]\<rparr>"
    by (simp add: saturated_def)
  show "sharedState saturated = []"
    by (simp add: saturated_def flood_sharedState joined_clients)
qed

lemma crowded_clients:
  "clients crowded 2 = Some \<lparr>conn_closed = False, send = replicate 256 [0]\<rparr>"
  "clients crowded 3 = Some \<lparr>conn_closed = False, send = []\<rparr>"
  by (simp_all add: crowded_def connect_clients saturated_clients)

text \<open>
  The statement at the frame \<open>[2, 1, 2, 3]\<close> from client 1, with client 2
  registered and its channel empty.
\<close>

theorem C4_update_applied_and_relayed_witness:
  "sharedState (snd (handleMessage 1 [2, 1, 2, 3] (joined ''r1'' ''r1''))) = [1, 2, 3] \<and>
   clients (snd (handleMessage 1 [2, 1, 2, 3] (joined ''r1'' ''r1''))) 2
     = Some \<lparr>conn_closed = False, send = [[2, 1, 2, 3]]\<rparr> \<and>
   clients (snd (handleMessage 1 [2, 1, 2, 3] (joined ''r1'' ''r1''))) 1
     = Some \<lparr>conn_closed = False, send = []\<rparr>"
  using C4_update_applied_and_relayed [where msg = "[2, 1, 2, 3]" and a = 1 and k = 2
      and s = "joined ''r1'' ''r1''" and cl = "\<lparr>conn_closed = False, send = []\<rparr>"]
  by (simp add: joined_clients joined_sender sendCapacity_def)

text \<open>
  Claim C4 as the specification words it, with delivery to every other registered
  client, does not hold: client 2 is registered and its channel holds 256 frames; the
  update \<open>[2, 1, 2, 3]\<close> from client 1 becomes \<open>sharedState\<close>, and the channel of
  client 2 is what it was, without the frame.
\<close>

theorem C4_full_queue_counterexample:
  "[2, 1, 2, 3] ! 0 = (2::byte) \<and> drop 1 [2, 1, 2, 3 :: byte] \<noteq> [] \<and>
   clients saturated 2 = Some \<lparr>conn_closed = False, send = replicate 256 [0]\<rparr> \<and>
   sharedState (snd (handleMessage 1 [2, 1, 2, 3] saturated)) = [1, 2, 3] \<and>
   clients (snd (handleMessage 1 [2, 1, 2, 3] saturated)) 2
     = Some \<lparr>conn_closed = False, send = replicate 256 [0]\<rparr> \<and>
   [2, 1, 2, 3] \<notin> set (replicate 256 [0::byte])"
  by (simp add: handleMessage_clients handleMessage_applies saturated_clients trySend_def
      sendCapacity_def)

subsection \<open>The snapshot file\<close>

text \<open>
  Claim C5. With a non-empty \<open>sharedState\<close> equal to \<open>b\<close>, a \<open>saveState\<close> whose
  write succeeds, followed by a start of the process over the file it left and a
  \<open>loadState\<close> whose read succeeds, gives \<open>sharedState\<close> equal to \<open>b\<close>.
\<close>

theorem C5_save_load_roundtrip:
  assumes "b \<noteq> []" and "sharedState s = b"
  shows "sharedState (init_server False (disk (saveState WriteOk s))) = b"
  using assms
  by (simp add: saveState_def os_WriteFile_def init_server_def loadState_def os_ReadFile_def
      initial_def logf_def Let_def)

text \<open>
  The statement at the blob \<open>[1, 2, 3]\<close>.
\<close>

theorem C5_save_load_roundtrip_witness:
  "[1, 2, 3] \<noteq> ([] :: bytes) \<and>
   sharedState (init_server False
     (disk (saveState WriteOk ((initial None)\<lparr>sharedState := [1, 2, 3]\<rparr>)))) = [1, 2, 3]"
  using C5_save_load_roundtrip [of "[1, 2, 3]" "(initial None)\<lparr>sharedState := [1, 2, 3]\<rparr>"]
  by simp

text \<open>
  Claim C6. When the snapshot file does not exist, \<open>loadState\<close> only logs that
  there is no saved state. When the file exists and reading it fails, \<open>loadState\<close>
  only logs the error. In both cases \<open>loadState\<close> returns, and the process started
  over such a file has an empty \<open>sharedState\<close>.
\<close>

theorem C6_load_failure_not_fatal:
  "(disk s = None \<longrightarrow> loadState fault s = logf NoSavedState s) \<and>
   (disk s \<noteq> None \<and> fault \<longrightarrow> loadState fault s = logf LoadError s) \<and>
   (f = None \<or> fault \<longrightarrow> sharedState (init_server fault f) = [])"
  by (cases f)
    (auto simp add: loadState_def os_ReadFile_def os_IsNotExist_def init_server_def
      initial_def logf_def)

text \<open>
  The statement at a start without a file and at a start over a file that cannot be
  read.
\<close>

theorem C6_load_failure_not_fatal_witness:
  "init_server False None
     = \<lparr>clients = Map.empty, sharedState = [], disk = None, pendingSaves = 0,
        logs = [NoSavedState]\<rparr> \<and>
   init_server True (Some [1, 2, 3])
     = \<lparr>clients = Map.empty, sharedState = [], disk = Some [1, 2, 3], pendingSaves = 0,
        logs = [LoadError]\<rparr>"
  using C6_load_failure_not_fatal [of "initial None" False None]
    C6_load_failure_not_fatal [of "initial (Some [1, 2, 3])" True "Some [1, 2, 3]"]
  by (simp add: init_server_def initial_def logf_def)

text \<open>
  Claim C7. With an empty \<open>sharedState\<close>, \<open>saveState\<close> changes nothing, whatever a
  write would have done: the snapshot file keeps its content.
\<close>

theorem C7_save_empty_is_noop:
  assumes "sharedState s = []"
  shows "saveState w s = s \<and> disk (saveState w s) = disk s"
  using assms by (simp add: saveState_def)

text \<open>
  The statement over a file holding \<open>[1, 2, 3]\<close>, for a write that would succeed
  and for one that would fail and remove the file.
\<close>

theorem C7_save_empty_is_noop_witness:
  "saveState WriteOk (initial (Some [1, 2, 3])) = initial (Some [1, 2, 3]) \<and>
   disk (saveState (WriteFails None) (initial (Some [1, 2, 3]))) = Some [1, 2, 3]"
  using C7_save_empty_is_noop [of "initial (Some [1, 2, 3])" WriteOk]
    C7_save_empty_is_noop [of "initial (Some [1, 2, 3])" "WriteFails None"]
  by (simp add: initial_def)

subsection \<open>Broadcast to a full channel\<close>

text \<open>
  Claim C8. When the channel of a registered client \<open>k\<close>, not the sender, holds 256
  frames, a broadcast returns no error, leaves the entry of \<open>k\<close> as it was, and
  still appends the frame to the channel of any other registered client \<open>j\<close>, not the
  sender, whose channel holds fewer than 256 frames.
\<close>

theorem C8_full_queue_drops:
  assumes "k \<noteq> c" and "clients s k = Some cl" and "length (send cl) = 256"
  shows "fst (broadcastMessage c msg s) = None \<and>
         clients (snd (broadcastMessage c msg s)) k = Some cl \<and>
         (j \<noteq> c \<and> clients s j = Some cj \<and> length (send cj) < 256 \<longrightarrow>
            clients (snd (broadcastMessage c msg s)) j
              = Some (cj\<lparr>send := send cj @ [msg]\<rparr>))"
  using assms
  by (simp add: fst_broadcastMessage broadcast_fields trySend_def sendCapacity_def)

text \<open>
  The statement with the channel of client 2 full and that of client 3 empty.
\<close>

theorem C8_full_queue_drops_witness:
  "fst (broadcastMessage 1 [2, 9] crowded) = None \<and>
   clients (snd (broadcastMessage 1 [2, 9] crowded)) 2
     = Some \<lparr>conn_closed = False, send = replicate 256 [0]\<rparr> \<and>
   clients (snd (broadcastMessage 1 [2, 9] crowded)) 3
     = Some \<lparr>conn_closed = False, send = [[2, 9]]\<rparr>"
  using C8_full_queue_drops [where k = 2 and c = 1 and s = crowded and msg = "[2, 9]"
      and cl = "\<lparr>conn_closed = False, send = replicate 256 [0]\<rparr>"
      and j = 3 and cj = "\<lparr>conn_closed = False, send = []\<rparr>"]
  by (simp add: crowded_clients)

subsection \<open>The frame that is only the update tag\<close>

text \<open>
  Claim C9. The frame \<open>[2]\<close> leaves \<open>sharedState\<close>, the started saves and the
  snapshot file as they were, and it is broadcast: handling it is the broadcast of
  \<open>[2]\<close> after one line of log, which offers the frame to the channel of every
  registered client other than the sender.
\<close>

theorem C9_bare_update_tag:
  "sharedState (snd (handleMessage c [2] s)) = sharedState s \<and>
   pendingSaves (snd (handleMessage c [2] s)) = pendingSaves s \<and>
   disk (snd (handleMessage c [2] s)) = disk s \<and>
   handleMessage c [2] s = broadcastMessage c [2] (logf (ReceivedType 2 1) s) \<and>
   (\<forall>k. k \<noteq> c \<longrightarrow>
      clients (snd (handleMessage c [2] s)) k = map_option (trySend [2]) (clients s k))"
  by (simp add: handleMessage_def handleUpdate_def Let_def broadcast_fields logf_fields)

text \<open>
  The statement with \<open>sharedState\<close> equal to \<open>[5]\<close> and client 2 registered.
\<close>

theorem C9_bare_update_tag_witness:
  "sharedState (snd (handleMessage 1 [2] ((joined ''r1'' ''r1'')\<lparr>sharedState := [5]\<rparr>))) = [5] \<and>
   pendingSaves (snd (handleMessage 1 [2] ((joined ''r1'' ''r1'')\<lparr>sharedState := [5]\<rparr>))) = 0 \<and>
   clients (snd (handleMessage 1 [2] ((joined ''r1'' ''r1'')\<lparr>sharedState := [5]\<rparr>))) 2
     = Some \<lparr>conn_closed = False, send = [[2]]\<rparr>"
  using C9_bare_update_tag [of 1 "(joined ''r1'' ''r1'')\<lparr>sharedState := [5]\<rparr>"]
  by (simp add: joined_clients trySend_def sendCapacity_def broadcast_fields logf_fields)

subsection \<open>The read loop\<close>

lemma readPump_frames:
  "list_all is_Frame rs \<Longrightarrow>
   fst (readPump c rs s) = Reading \<and> clients (snd (readPump c rs s)) c = clients s c"
proof (induction rs arbitrary: s)
  case Nil
  then show ?case by simp
next
  case (Cons r rs)
  then obtain m where r: "r = Frame m" by (cases r) simp_all
  obtain s' where h: "handleMessage c m s = (None, s')"
    using fst_handleMessage [of c m s] by (cases "handleMessage c m s") simp
  have "clients s' c = clients s c"
    using handleMessage_sender [of c m s] h by simp
  with Cons r h show ?case by simp
qed

lemma readPump_failure:
  "\<not> list_all is_Frame rs \<Longrightarrow> fst (readPump c rs s) = Returned"
proof (induction rs arbitrary: s)
  case Nil
  then show ?case by simp
next
  case (Cons r rs)
  show ?case
  proof (cases r)
    case (Frame m)
    obtain s' where h: "handleMessage c m s = (None, s')"
      using fst_handleMessage [of c m s] by (cases "handleMessage c m s") simp
    with Cons Frame show ?thesis by simp
  qed simp_all
qed

text \<open>
  Claim C10. \<open>handleMessage\<close> returns no error for any frame. So the loop of
  \<open>readPump\<close> has returned exactly when one of the reads did not give a frame; as
  long as every read gives a frame, whatever its content, the loop is still reading
  and the sender's registry entry, with its connection, is as it was.
\<close>

theorem C10_only_read_failure_ends_loop:
  "fst (handleMessage c msg s) = None \<and>
   (fst (readPump c rs s) = Returned \<longleftrightarrow> (\<exists>r \<in> set rs. \<not> is_Frame r)) \<and>
   ((\<forall>r \<in> set rs. is_Frame r) \<longrightarrow>
      fst (readPump c rs s) = Reading \<and> clients (snd (readPump c rs s)) c = clients s c)"
proof (cases "list_all is_Frame rs")
  case True
  with readPump_frames [OF True, of c s] show ?thesis
    by (simp add: fst_handleMessage list_all_iff)
next
  case False
  with readPump_failure [OF False, of c s] show ?thesis
    by (simp add: fst_handleMessage list_all_iff)
qed

text \<open>
  The statement at three frames, and at a frame followed by the end of the stream.
\<close>

theorem C10_only_read_failure_ends_loop_witness:
  "fst (readPump 1 [Frame [9], Frame [], Frame [2]] (joined ''r1'' ''r1'')) = Reading \<and>
   clients (snd (readPump 1 [Frame [9], Frame [], Frame [2]] (joined ''r1'' ''r1''))) 1
     = Some \<lparr>conn_closed = False, send = []\<rparr> \<and>
   fst (readPump 1 [Frame [9], ReadEnds, Frame [2]] (joined ''r1'' ''r1'')) = Returned"
  using C10_only_read_failure_ends_loop [of 1 "[]" "joined ''r1'' ''r1''" "[Frame [9], Frame [], Frame [2]]"]
    C10_only_read_failure_ends_loop [of 1 "[]" "joined ''r1'' ''r1''" "[Frame [9], ReadEnds, Frame [2]]"]
  by (simp add: joined_clients joined_sender)

end
